theory Spec2Isabelle
  imports Main "HOL-Library.Word" "HOL-Library.Sublist"
begin

section \<open>The data of logrusbun.go\<close>

text \<open>
  \<open>logrus.Level\<close> is a \<open>uint32\<close>. The hook only compares levels for equality. The seven
  constants are the ones logrus declares with \<open>iota\<close>, from \<open>PanicLevel\<close> (0) to
  \<open>TraceLevel\<close> (6). The constant for errors is written \<open>logrus_ErrorLevel\<close>, since
  \<open>ErrorLevel\<close> is also a field of \<open>QueryHookOptions\<close>.
\<close>

type_synonym Level = "32 word"

definition PanicLevel :: Level where "PanicLevel = 0"
definition FatalLevel :: Level where "FatalLevel = 1"
definition logrus_ErrorLevel :: Level where "logrus_ErrorLevel = 2"
definition WarnLevel :: Level where "WarnLevel = 3"
definition InfoLevel :: Level where "InfoLevel = 4"
definition DebugLevel :: Level where "DebugLevel = 5"
definition TraceLevel :: Level where "TraceLevel = 6"

text \<open>
  The value of \<open>event.Err\<close>. The hook compares it with \<open>==\<close> against \<open>nil\<close> and the two
  sentinels of \<open>database/sql\<close>; \<open>nil\<close> is \<open>None\<close>, and every error that is not one of
  the sentinels is an \<open>OtherError\<close> with its message.
\<close>

datatype go_error = ErrNoRows | ErrTxDone | OtherError string

text \<open>
  The dynamic type of \<open>event.QueryAppender\<close>, as far as the type switch of
  \<open>eventOperation\<close> tells types apart: \<open>OtherQuery\<close> is every other type, and the
  \<open>nil\<close> interface.
\<close>

datatype QueryAppender =
  SelectQuery | InsertQuery | UpdateQuery | DeleteQuery | CreateTableQuery | DropTableQuery
  | OtherQuery

text \<open>
  The fields of \<open>bun.QueryEvent\<close> the hook reads. A \<open>time.Time\<close> is an instant in
  nanoseconds; strings are byte lists, as Go's are.
\<close>

record QueryEvent =
  StartTime :: int
  ev_Query :: string
  Err :: "go_error option"
  QueryAppender :: QueryAppender

text \<open>
  A \<open>logrus.FieldLogger\<close> is an interface value: \<open>None\<close> is the \<open>nil\<close> interface. A
  \<open>time.Duration\<close> is a number of nanoseconds (an \<open>int64\<close>; the hook only compares
  durations).
\<close>

datatype FieldLogger = FieldLogger nat

record QueryHookOptions =
  LogSlow :: int
  Logger :: "FieldLogger option"
  QueryLevel :: Level
  SlowLevel :: Level
  ErrorLevel :: Level
  MessageTemplate :: string
  ErrorTemplate :: string

record LogEntryVars =
  Timestamp :: int
  Query :: string
  Operation :: string
  Duration :: int
  Error :: "go_error option"

text \<open>
  The package \<open>text/template\<close> is used through two calls: \<open>template.New(name).Parse(text)\<close>
  and \<open>t.Execute(&msg, args)\<close>. Both may fail with an error (its message, here). The
  hook is modelled over any such pair of functions; \<open>'t\<close> is the type of parsed
  templates.
\<close>

record 't template_engine =
  Parse :: "string \<Rightarrow> string \<Rightarrow> string + 't"
  Execute :: "'t \<Rightarrow> LogEntryVars \<Rightarrow> string + string"

text \<open>The three pointer fields of \<open>QueryHook\<close> are \<open>nil\<close> (\<open>None\<close>) until an option sets them.\<close>

record 't QueryHook =
  enabled :: bool
  verbose :: bool
  opts :: "QueryHookOptions option"
  errorTemplate :: "'t option"
  messageTemplate :: "'t option"

text \<open>
  What a call can panic with: the string of \<open>NewQueryHook\<close>, the error of a template
  that does not parse or does not render, the \<open>fmt.Errorf("Unsupported level: %v", level)\<close>
  of the dispatch (kept as the level), and the run-time panic of a \<open>nil\<close> dereference.
\<close>

datatype panic =
  SettingsNotSet | TemplateError string | UnsupportedLevel Level | NilDereference

text \<open>The one call \<open>AfterQuery\<close> may make on \<open>h.opts.Logger\<close>: the method and its argument.\<close>

datatype log_call =
  LogDebug string | LogInfo string | LogWarn string | LogError string | LogFatal string
  | LogPanic string

section \<open>Options and \<open>NewQueryHook\<close>\<close>

text \<open>
  An \<open>Option\<close> is a function that mutates the hook; here it returns the mutated hook, or
  the panic it raises.
\<close>

type_synonym 't Option = "'t QueryHook \<Rightarrow> panic + 't QueryHook"

definition WithEnabled :: "bool \<Rightarrow> 't Option" where
  "WithEnabled on = (\<lambda>h. Inr (h\<lparr>enabled := on\<rparr>))"

definition WithVerbose :: "bool \<Rightarrow> 't Option" where
  "WithVerbose on = (\<lambda>h. Inr (h\<lparr>verbose := on\<rparr>))"

text \<open>
  The loop of \<open>FromEnv\<close> over its keys: the first key that \<open>os.LookupEnv\<close> finds sets
  both flags and ends the loop. The environment is a map from names to values.
\<close>

fun FromEnv_loop :: "(string \<rightharpoonup> string) \<Rightarrow> string list \<Rightarrow> 't QueryHook \<Rightarrow> 't QueryHook" where
  "FromEnv_loop environ [] h = h"
| "FromEnv_loop environ (key # keys) h =
     (case environ key of
        Some env \<Rightarrow> h\<lparr>enabled := (env \<noteq> [] \<and> env \<noteq> ''0''), verbose := (env = ''2'')\<rparr>
      | None \<Rightarrow> FromEnv_loop environ keys h)"

definition FromEnv :: "(string \<rightharpoonup> string) \<Rightarrow> string list \<Rightarrow> 't Option" where
  "FromEnv environ keys =
     (let keys' = (if length keys = 0 then [''BUNDEBUG''] else keys)
      in (\<lambda>h. Inr (FromEnv_loop environ keys' h)))"

definition with_default_templates :: "QueryHookOptions \<Rightarrow> QueryHookOptions" where
  "with_default_templates opts0 =
     (let opts1 = (if ErrorTemplate opts0 = []
                   then opts0\<lparr>ErrorTemplate := ''{{.Operation}}[{{.Duration}}]: {{.Query}}: {{.Error}}''\<rparr>
                   else opts0);
          opts2 = (if MessageTemplate opts1 = []
                   then opts1\<lparr>MessageTemplate := ''{{.Operation}}[{{.Duration}}]: {{.Query}}''\<rparr>
                   else opts1)
      in opts2)"

definition WithQueryHookOptions :: "'t template_engine \<Rightarrow> QueryHookOptions \<Rightarrow> 't Option" where
  "WithQueryHookOptions eng opts0 =
     (\<lambda>h. let opts' = with_default_templates opts0 in
        (case Parse eng ''ErrorTemplate'' (ErrorTemplate opts') of
           Inl err \<Rightarrow> Inl (TemplateError err)
         | Inr et \<Rightarrow>
             (case Parse eng ''MessageTemplate'' (MessageTemplate opts') of
                Inl err \<Rightarrow> Inl (TemplateError err)
              | Inr mt \<Rightarrow>
                  Inr (h\<lparr>opts := Some opts', errorTemplate := Some et,
                         messageTemplate := Some mt\<rparr>))))"

fun apply_options :: "'t Option list \<Rightarrow> 't QueryHook \<Rightarrow> panic + 't QueryHook" where
  "apply_options [] h = Inr h"
| "apply_options (opt # options) h =
     (case opt h of Inl p \<Rightarrow> Inl p | Inr h' \<Rightarrow> apply_options options h')"

definition new_QueryHook :: "'t QueryHook" where
  "new_QueryHook =
     \<lparr>enabled = False, verbose = False, opts = None, errorTemplate = None,
      messageTemplate = None\<rparr>"

definition NewQueryHook :: "'t Option list \<Rightarrow> panic + 't QueryHook" where
  "NewQueryHook options =
     (case apply_options options new_QueryHook of
        Inl p \<Rightarrow> Inl p
      | Inr h \<Rightarrow> (if opts h = None then Inl SettingsNotSet else Inr h))"

section \<open>The operation name\<close>

text \<open>
  \<open>strings.Index(s, substr)\<close>: the index of the first instance of \<open>substr\<close> in \<open>s\<close>, or
  \<open>-1\<close> when there is none.
\<close>

fun strings_Index :: "string \<Rightarrow> string \<Rightarrow> int" where
  "strings_Index [] substr = (if substr = [] then 0 else - 1)"
| "strings_Index (c # s) substr =
     (if prefix substr (c # s) then 0
      else (let i = strings_Index s substr in if i < 0 then - 1 else i + 1))"

definition queryOperation :: "string \<Rightarrow> string" where
  "queryOperation name =
     (let idx = strings_Index name '' '';
          name1 = (if idx > 0 then take (nat idx) name else name);
          name2 = (if length name1 > 16 then take 16 name1 else name1)
      in name2)"

definition eventOperation :: "QueryEvent \<Rightarrow> string" where
  "eventOperation event =
     (case QueryAppender event of
        SelectQuery \<Rightarrow> ''SELECT''
      | InsertQuery \<Rightarrow> ''INSERT''
      | UpdateQuery \<Rightarrow> ''UPDATE''
      | DeleteQuery \<Rightarrow> ''DELETE''
      | CreateTableQuery \<Rightarrow> ''CREATE TABLE''
      | DropTableQuery \<Rightarrow> ''DROP TABLE''
      | OtherQuery \<Rightarrow> queryOperation (ev_Query event))"

text \<open>
  The operation name as the specification words it, for comparison with
  \<open>queryOperation\<close>: the text up to, not including, the first space, if any, then at
  most 16 characters of it.
\<close>

definition spec_queryOperation :: "string \<Rightarrow> string" where
  "spec_queryOperation name = take 16 (takeWhile (\<lambda>c. c \<noteq> CHR '' '') name)"

section \<open>\<open>AfterQuery\<close>\<close>

text \<open>
  \<open>now.Sub(event.StartTime)\<close>: the difference of two instants, which \<open>time.Time.Sub\<close>
  saturates at the least and the greatest \<open>Duration\<close>.
\<close>

definition maxDuration :: int where "maxDuration = 2 ^ 63 - 1"
definition minDuration :: int where "minDuration = - (2 ^ 63)"

definition time_Sub :: "int \<Rightarrow> int \<Rightarrow> int" where
  "time_Sub t u =
     (let d = t - u
      in if d > maxDuration then maxDuration else if d < minDuration then minDuration else d)"

text \<open>
  The two early returns at the head of \<open>AfterQuery\<close>: \<open>True\<close> when the event goes on to
  be classified.
\<close>

definition passes_gates :: "'t QueryHook \<Rightarrow> QueryEvent \<Rightarrow> bool" where
  "passes_gates h event =
     (if \<not> enabled h then False
      else if \<not> verbose h
              \<and> (Err event = None \<or> Err event = Some ErrNoRows \<or> Err event = Some ErrTxDone)
           then False
      else True)"

text \<open>The second \<open>switch event.Err\<close>: the pair \<open>(isError, level)\<close>.\<close>

definition classify :: "QueryHookOptions \<Rightarrow> go_error option \<Rightarrow> int \<Rightarrow> bool \<times> Level" where
  "classify o' err dur =
     (if err = None \<or> err = Some ErrNoRows
      then (False, if LogSlow o' > 0 \<and> dur \<ge> LogSlow o' then SlowLevel o' else QueryLevel o')
      else (True, ErrorLevel o'))"

text \<open>
  \<open>t.Execute(&msg, args)\<close> on a template pointer of the hook; a \<open>nil\<close> template is
  dereferenced by \<open>Execute\<close>.
\<close>

definition render :: "'t template_engine \<Rightarrow> 't option \<Rightarrow> LogEntryVars \<Rightarrow> panic + string" where
  "render eng tmpl args =
     (case tmpl of
        None \<Rightarrow> Inl NilDereference
      | Some t \<Rightarrow> (case Execute eng t args of Inl err \<Rightarrow> Inl (TemplateError err) | Inr msg \<Rightarrow> Inr msg))"

text \<open>A method call on \<open>h.opts.Logger\<close>; on the \<open>nil\<close> interface it panics.\<close>

definition logger_call :: "FieldLogger option \<Rightarrow> log_call \<Rightarrow> panic + log_call option" where
  "logger_call logger c = (case logger of None \<Rightarrow> Inl NilDereference | Some l \<Rightarrow> Inr (Some c))"

text \<open>The final \<open>switch level\<close>, its cases in the order of the source.\<close>

definition dispatch :: "FieldLogger option \<Rightarrow> Level \<Rightarrow> string \<Rightarrow> panic + log_call option" where
  "dispatch logger level msg =
     (if level = DebugLevel then logger_call logger (LogDebug msg)
      else if level = InfoLevel then logger_call logger (LogInfo msg)
      else if level = WarnLevel then logger_call logger (LogWarn msg)
      else if level = logrus_ErrorLevel then logger_call logger (LogError msg)
      else if level = FatalLevel then logger_call logger (LogFatal msg)
      else if level = PanicLevel then logger_call logger (LogPanic msg)
      else Inl (UnsupportedLevel level))"

text \<open>
  \<open>AfterQuery\<close>, with the reading of the clock as the argument \<open>now\<close>. The result is the
  panic, or the call made on the logger (\<open>None\<close> when it returns without logging).
\<close>

definition AfterQuery ::
  "'t template_engine \<Rightarrow> 't QueryHook \<Rightarrow> QueryEvent \<Rightarrow> int \<Rightarrow> panic + log_call option" where
  "AfterQuery eng h event now =
     (if \<not> passes_gates h event then Inr None
      else
        let dur = time_Sub now (StartTime event) in
        (case opts h of
          None \<Rightarrow> Inl NilDereference
        | Some o' \<Rightarrow>
            (case classify o' (Err event) dur of
               (isError, level) \<Rightarrow>
                 if level = 0 then Inr None
                 else
                   let args = \<lparr>Timestamp = now, Query = ev_Query event,
                               Operation = eventOperation event, Duration = dur,
                               Error = Err event\<rparr>
                   in (case render eng (if isError then errorTemplate h else messageTemplate h) args of
                         Inl p \<Rightarrow> Inl p
                       | Inr msg \<Rightarrow> dispatch (Logger o') level msg))))"

section \<open>The standard library behind the templates\<close>

text \<open>
  \<open>time.Duration.String\<close>, which prints the \<open>Duration\<close> field of a template. Go fills a
  buffer from its end: \<open>fmtInt\<close> and \<open>fmtFrac\<close> put their digits before the text
  \<open>buf\<close> that is already there.
\<close>

definition digit_char :: "nat \<Rightarrow> char" where
  "digit_char n = char_of (48 + n)"

fun fmtInt_loop :: "nat \<Rightarrow> string \<Rightarrow> string" where
  "fmtInt_loop v buf = (if v = 0 then buf else fmtInt_loop (v div 10) (digit_char (v mod 10) # buf))"

definition fmtInt :: "string \<Rightarrow> nat \<Rightarrow> string" where
  "fmtInt buf v = (if v = 0 then CHR ''0'' # buf else fmtInt_loop v buf)"

fun fmtFrac_loop :: "nat \<Rightarrow> bool \<Rightarrow> nat \<Rightarrow> string \<Rightarrow> bool \<times> nat \<times> string" where
  "fmtFrac_loop 0 print v buf = (print, v, buf)"
| "fmtFrac_loop (Suc i) print v buf =
     (let digit = v mod 10;
          print' = (print \<or> digit \<noteq> 0)
      in fmtFrac_loop i print' (v div 10) (if print' then digit_char digit # buf else buf))"

definition fmtFrac :: "string \<Rightarrow> nat \<Rightarrow> nat \<Rightarrow> string \<times> nat" where
  "fmtFrac buf v prec =
     (case fmtFrac_loop prec False v buf of
        (print, v', buf') \<Rightarrow> (if print then CHR ''.'' # buf' else buf', v'))"

definition Duration_String :: "int \<Rightarrow> string" where
  "Duration_String d =
     (let u = nat \<bar>d\<bar>;
          neg = (d < 0);
          body =
            (if u < 1000000000 then
               (if u = 0 then ''0s''
                else
                  (case (if u < 1000 then fmtFrac ''ns'' u 0
                         else if u < 1000000 then fmtFrac [char_of (194::nat), char_of (181::nat), CHR ''s''] u 3
                         else fmtFrac ''ms'' u 6) of
                     (buf, u') \<Rightarrow> fmtInt buf u'))
             else
               (case fmtFrac ''s'' u 9 of
                  (buf, secs) \<Rightarrow>
                    (let buf1 = fmtInt buf (secs mod 60);
                         mins = secs div 60
                     in if mins > 0 then
                          (let buf2 = fmtInt (CHR ''m'' # buf1) (mins mod 60);
                               hours = mins div 60
                           in if hours > 0 then fmtInt (CHR ''h'' # buf2) hours else buf2)
                        else buf1)))
      in if neg then CHR ''-'' # body else body)"

text \<open>The \<open>Error()\<close> text of an error; the two sentinels have the texts of \<open>database/sql\<close>.\<close>

definition error_text :: "go_error \<Rightarrow> string" where
  "error_text e =
     (case e of
        ErrNoRows \<Rightarrow> ''sql: no rows in result set''
      | ErrTxDone \<Rightarrow> ''sql: transaction has already been committed or rolled back''
      | OtherError m \<Rightarrow> m)"

text \<open>
  A fragment of \<open>text/template\<close>: templates made of literal text and of actions that
  name one field, \<open>{{.Name}}\<close>. \<open>scan\<close> reads the text with the pending characters in
  \<open>acc\<close> (reversed), inside an action or not. An action that is not closed is a parse
  error, as in Go. Every other action (a pipeline, a keyword, a comment, spaces or trim
  markers in the delimiters) is outside the fragment, and \<open>scan\<close> reports it as an error
  of its own: the fragment says nothing about templates that use them. The error texts are
  descriptions, not Go's messages.
\<close>

datatype node = TextNode string | FieldNode string

definition is_ident_start :: "char \<Rightarrow> bool" where
  "is_ident_start c =
     (let n = (of_char c :: nat) in (65 \<le> n \<and> n \<le> 90) \<or> (97 \<le> n \<and> n \<le> 122) \<or> n = 95)"

definition is_ident_char :: "char \<Rightarrow> bool" where
  "is_ident_char c = (is_ident_start c \<or> (let n = (of_char c :: nat) in 48 \<le> n \<and> n \<le> 57))"

definition field_of :: "string \<Rightarrow> string option" where
  "field_of action =
     (case action of
        [] \<Rightarrow> None
      | dot # name \<Rightarrow>
          (case name of
             [] \<Rightarrow> None
           | c # cs \<Rightarrow>
               if dot = CHR ''.'' \<and> is_ident_start c \<and> list_all is_ident_char cs
               then Some name else None))"

definition text_node :: "string \<Rightarrow> node list" where
  "text_node s = (if s = [] then [] else [TextNode s])"

fun scan :: "bool \<Rightarrow> string \<Rightarrow> string \<Rightarrow> string + node list" where
  "scan in_action acc [] =
     (if in_action then Inl ''unclosed action'' else Inr (text_node (rev acc)))"
| "scan in_action acc [c] =
     (if in_action then Inl ''unclosed action'' else Inr (text_node (rev (c # acc))))"
| "scan in_action acc (c # d # cs) =
     (if in_action then
        (if c = CHR ''}'' \<and> d = CHR ''}'' then
           (case field_of (rev acc) of
              None \<Rightarrow> Inl ''action outside the fragment''
            | Some name \<Rightarrow>
                (case scan False [] cs of
                   Inl err \<Rightarrow> Inl err
                 | Inr nodes \<Rightarrow> Inr (FieldNode name # nodes)))
         else scan True (c # acc) (d # cs))
      else
        (if c = CHR ''{'' \<and> d = CHR ''{'' then
           (case scan True [] cs of
              Inl err \<Rightarrow> Inl err
            | Inr nodes \<Rightarrow> Inr (text_node (rev acc) @ nodes))
         else scan False (c # acc) (d # cs)))"

text \<open>
  The value a field prints as. \<open>Timestamp\<close> is a \<open>time.Time\<close>, whose text depends on
  the time zone and the clock: it is the parameter \<open>time_String\<close>. A \<open>nil\<close> error prints
  as \<open><nil>\<close>. A name that is not a field of \<open>LogEntryVars\<close> has no value.
\<close>

definition field_value :: "(int \<Rightarrow> string) \<Rightarrow> LogEntryVars \<Rightarrow> string \<Rightarrow> string option" where
  "field_value time_String args name =
     (if name = ''Timestamp'' then Some (time_String (Timestamp args))
      else if name = ''Query'' then Some (Query args)
      else if name = ''Operation'' then Some (Operation args)
      else if name = ''Duration'' then Some (Duration_String (Duration args))
      else if name = ''Error'' then
        Some (case Error args of None \<Rightarrow> ''<nil>'' | Some e \<Rightarrow> error_text e)
      else None)"

fun exec_nodes :: "(int \<Rightarrow> string) \<Rightarrow> node list \<Rightarrow> LogEntryVars \<Rightarrow> string + string" where
  "exec_nodes time_String [] args = Inr []"
| "exec_nodes time_String (TextNode s # nodes) args =
     (case exec_nodes time_String nodes args of Inl err \<Rightarrow> Inl err | Inr out \<Rightarrow> Inr (s @ out))"
| "exec_nodes time_String (FieldNode name # nodes) args =
     (case field_value time_String args name of
        None \<Rightarrow> Inl (''cannot evaluate field '' @ name)
      | Some v \<Rightarrow>
          (case exec_nodes time_String nodes args of
             Inl err \<Rightarrow> Inl err
           | Inr out \<Rightarrow> Inr (v @ out)))"

definition text_template :: "(int \<Rightarrow> string) \<Rightarrow> node list template_engine" where
  "text_template time_String =
     \<lparr>Parse = (\<lambda>name text. scan False [] text), Execute = exec_nodes time_String\<rparr>"

section \<open>The scenarios of the specification\<close>

text \<open>
  The configuration of the scenarios: a slow threshold of one second, the three levels
  set, a logger, and both templates left unset.
\<close>

definition scenario_options :: QueryHookOptions where
  "scenario_options =
     \<lparr>LogSlow = 1000000000, Logger = Some (FieldLogger 0), QueryLevel = DebugLevel,
      SlowLevel = WarnLevel, ErrorLevel = logrus_ErrorLevel, MessageTemplate = [],
      ErrorTemplate = []\<rparr>"

text \<open>The engine of the scenarios; no scenario prints a \<open>Timestamp\<close>.\<close>

definition scenario_engine :: "node list template_engine" where
  "scenario_engine = text_template (\<lambda>t. [])"

text \<open>
  The hook that \<open>NewQueryHook\<close> builds from \<open>scenario_options\<close> with the given
  \<open>enabled\<close> and \<open>verbose\<close> flags (lemma \<open>NewQueryHook_scenario\<close>).
\<close>

definition scenario_hook :: "bool \<Rightarrow> bool \<Rightarrow> node list QueryHook" where
  "scenario_hook on v =
     \<lparr>enabled = on, verbose = v,
      opts = Some (with_default_templates scenario_options),
      errorTemplate =
        Some [FieldNode ''Operation'', TextNode ''['', FieldNode ''Duration'', TextNode '']: '',
              FieldNode ''Query'', TextNode '': '', FieldNode ''Error''],
      messageTemplate =
        Some [FieldNode ''Operation'', TextNode ''['', FieldNode ''Duration'', TextNode '']: '',
              FieldNode ''Query'']\<rparr>"

text \<open>A query that started at instant 0, with the given outcome and kind.\<close>

definition scenario_event :: "go_error option \<Rightarrow> QueryAppender \<Rightarrow> QueryEvent" where
  "scenario_event err kind =
     \<lparr>StartTime = 0, ev_Query = ''SELECT * FROM users'', Err = err, QueryAppender = kind\<rparr>"

section \<open>Reading a call on the logger\<close>

text \<open>
  The level of the method that a call on the logger names, and the message it passes:
  what an observer of the logger sees of the level and the text \<open>AfterQuery\<close> resolved.
\<close>

definition level_of_call :: "log_call \<Rightarrow> Level" where
  "level_of_call c =
     (case c of
        LogDebug m \<Rightarrow> DebugLevel
      | LogInfo m \<Rightarrow> InfoLevel
      | LogWarn m \<Rightarrow> WarnLevel
      | LogError m \<Rightarrow> logrus_ErrorLevel
      | LogFatal m \<Rightarrow> FatalLevel
      | LogPanic m \<Rightarrow> PanicLevel)"

definition call_text :: "log_call \<Rightarrow> string" where
  "call_text c =
     (case c of
        LogDebug m \<Rightarrow> m
      | LogInfo m \<Rightarrow> m
      | LogWarn m \<Rightarrow> m
      | LogError m \<Rightarrow> m
      | LogFatal m \<Rightarrow> m
      | LogPanic m \<Rightarrow> m)"

section \<open>Facts about the engine and the scenarios\<close>

lemma passes_gates_iff:
  "passes_gates h event \<longleftrightarrow>
     enabled h \<and>
     (verbose h \<or>
      (Err event \<noteq> None \<and> Err event \<noteq> Some ErrNoRows \<and> Err event \<noteq> Some ErrTxDone))"
  by (auto simp: passes_gates_def)

lemma scan_default_message:
  "scan False [] ''{{.Operation}}[{{.Duration}}]: {{.Query}}'' =
     Inr [FieldNode ''Operation'', TextNode ''['', FieldNode ''Duration'', TextNode '']: '',
          FieldNode ''Query'']"
  by (simp add: field_of_def text_node_def is_ident_start_def is_ident_char_def)

lemma scan_default_error:
  "scan False [] ''{{.Operation}}[{{.Duration}}]: {{.Query}}: {{.Error}}'' =
     Inr [FieldNode ''Operation'', TextNode ''['', FieldNode ''Duration'', TextNode '']: '',
          FieldNode ''Query'', TextNode '': '', FieldNode ''Error'']"
  by (simp add: field_of_def text_node_def is_ident_start_def is_ident_char_def)

lemma fmtFrac_loop_numeral:
  "fmtFrac_loop (numeral k) print v buf =
     (let digit = v mod 10; print' = (print \<or> digit \<noteq> 0)
      in fmtFrac_loop (pred_numeral k) print' (v div 10)
           (if print' then digit_char digit # buf else buf))"
proof -
  have "fmtFrac_loop (Suc (pred_numeral k)) print v buf =
     (let digit = v mod 10; print' = (print \<or> digit \<noteq> 0)
      in fmtFrac_loop (pred_numeral k) print' (v div 10)
           (if print' then digit_char digit # buf else buf))"
    by (simp only: fmtFrac_loop.simps)
  then show ?thesis
    by (simp only: numeral_eq_Suc [of k])
qed

lemma Parse_scenario_engine: "Parse scenario_engine name text = scan False [] text"
  by (simp add: scenario_engine_def text_template_def)

lemma Execute_scenario_engine: "Execute scenario_engine = exec_nodes (\<lambda>t. [])"
  by (simp add: scenario_engine_def text_template_def)

lemma with_default_templates_scenario:
  "with_default_templates scenario_options =
     scenario_options\<lparr>MessageTemplate := ''{{.Operation}}[{{.Duration}}]: {{.Query}}'',
                      ErrorTemplate := ''{{.Operation}}[{{.Duration}}]: {{.Query}}: {{.Error}}''\<rparr>"
  by (simp add: with_default_templates_def scenario_options_def)

lemma WithQueryHookOptions_scenario:
  "WithQueryHookOptions scenario_engine scenario_options h =
     Inr (h\<lparr>opts := opts (scenario_hook on v), errorTemplate := errorTemplate (scenario_hook on v),
            messageTemplate := messageTemplate (scenario_hook on v)\<rparr>)"
proof -
  have e: "ErrorTemplate (with_default_templates scenario_options)
             = ''{{.Operation}}[{{.Duration}}]: {{.Query}}: {{.Error}}''"
    by (simp add: with_default_templates_scenario)
  have m: "MessageTemplate (with_default_templates scenario_options)
             = ''{{.Operation}}[{{.Duration}}]: {{.Query}}''"
    by (simp add: with_default_templates_scenario)
  show ?thesis
    unfolding WithQueryHookOptions_def Let_def Parse_scenario_engine e m
      scan_default_message scan_default_error
    by (simp add: scenario_hook_def)
qed

lemma digit_char_2: "digit_char 2 = CHR ''2''"
  by (simp add: digit_char_def char_of_eq_iff)

lemma fmtFrac_2s: "fmtFrac ''s'' 2000000000 9 = (''s'', 2)"
  by (simp add: fmtFrac_def fmtFrac_loop_numeral Let_def)

lemma fmtInt_2: "fmtInt ''s'' 2 = ''2s''"
  by (simp add: fmtInt_def digit_char_2)

lemma Duration_String_2s: "Duration_String 2000000000 = ''2s''"
  by (simp add: Duration_String_def fmtFrac_2s fmtInt_2 Let_def)

lemma NewQueryHook_scenario:
  "NewQueryHook [WithQueryHookOptions scenario_engine scenario_options, WithEnabled on,
                 WithVerbose v]
     = Inr (scenario_hook on v)"
proof -
  have "apply_options [WithQueryHookOptions scenario_engine scenario_options, WithEnabled on,
                       WithVerbose v] new_QueryHook
          = Inr (scenario_hook on v)"
    unfolding apply_options.simps WithQueryHookOptions_scenario [of _ on v]
    by (simp add: WithEnabled_def WithVerbose_def new_QueryHook_def scenario_hook_def)
  then show ?thesis
    by (simp add: NewQueryHook_def scenario_hook_def)
qed

lemma time_Sub_from_0: "time_Sub 2000000000 0 = 2000000000"
  by (simp add: time_Sub_def maxDuration_def minDuration_def)

lemma scenario_hook_sel:
  "enabled (scenario_hook on v) = on" "verbose (scenario_hook on v) = v"
  "opts (scenario_hook on v) = Some (with_default_templates scenario_options)"
  by (simp_all add: scenario_hook_def)

lemma scenario_event_sel:
  "StartTime (scenario_event err kind) = 0" "Err (scenario_event err kind) = err"
  "ev_Query (scenario_event err kind) = ''SELECT * FROM users''"
  "QueryAppender (scenario_event err kind) = kind"
  by (simp_all add: scenario_event_def)

lemma scenario_options_sel:
  "LogSlow (with_default_templates scenario_options) = 1000000000"
  "Logger (with_default_templates scenario_options) = Some (FieldLogger 0)"
  "QueryLevel (with_default_templates scenario_options) = DebugLevel"
  "SlowLevel (with_default_templates scenario_options) = WarnLevel"
  "ErrorLevel (with_default_templates scenario_options) = logrus_ErrorLevel"
  by (simp_all add: with_default_templates_def scenario_options_def)

lemmas level_defs =
  PanicLevel_def FatalLevel_def logrus_ErrorLevel_def WarnLevel_def InfoLevel_def DebugLevel_def
  TraceLevel_def

lemma dispatch_Some:
  "dispatch logger level msg = Inr (Some c) \<Longrightarrow> level_of_call c = level \<and> call_text c = msg"
  by (auto simp: dispatch_def logger_call_def level_of_call_def call_text_def
      split: if_splits option.splits)

lemma dispatch_not_None: "dispatch logger level msg \<noteq> Inr None"
  by (auto simp: dispatch_def logger_call_def split: if_splits option.splits)

text \<open>What a call on the logger tells about the run of \<open>AfterQuery\<close> that made it.\<close>

lemma AfterQuery_Some:
  assumes "AfterQuery eng h event now = Inr (Some c)"
  shows "\<exists>o' isError.
           passes_gates h event \<and> opts h = Some o'
           \<and> classify o' (Err event) (time_Sub now (StartTime event)) = (isError, level_of_call c)
           \<and> level_of_call c \<noteq> 0
           \<and> render eng (if isError then errorTemplate h else messageTemplate h)
                 \<lparr>Timestamp = now, Query = ev_Query event, Operation = eventOperation event,
                  Duration = time_Sub now (StartTime event), Error = Err event\<rparr>
               = Inr (call_text c)"
proof -
  from assms have g: "passes_gates h event"
    by (auto simp: AfterQuery_def split: if_splits)
  from assms g obtain o' where o: "opts h = Some o'"
    by (cases "opts h") (auto simp: AfterQuery_def Let_def)
  obtain isError level where cl:
    "classify o' (Err event) (time_Sub now (StartTime event)) = (isError, level)"
    by (cases "classify o' (Err event) (time_Sub now (StartTime event))") auto
  from assms g o cl have nz: "level \<noteq> 0"
    by (auto simp: AfterQuery_def Let_def split: if_splits)
  from assms g o cl nz obtain msg where
    r: "render eng (if isError then errorTemplate h else messageTemplate h)
          \<lparr>Timestamp = now, Query = ev_Query event, Operation = eventOperation event,
           Duration = time_Sub now (StartTime event), Error = Err event\<rparr> = Inr msg"
    and d: "dispatch (Logger o') level msg = Inr (Some c)"
    by (auto simp: AfterQuery_def Let_def split: sum.splits)
  from dispatch_Some [OF d] have "level_of_call c = level" "call_text c = msg"
    by simp_all
  with g o cl nz r show ?thesis
    by auto
qed

lemma queryOperation_scenario: "queryOperation ''SELECT * FROM users'' = ''SELECT''"
  by (simp add: queryOperation_def Let_def)

lemma eventOperation_scenario:
  "eventOperation (scenario_event err OtherQuery) = ''SELECT''"
  "eventOperation (scenario_event err SelectQuery) = ''SELECT''"
  by (simp_all add: eventOperation_def scenario_event_def queryOperation_scenario)

lemma exec_default_message:
  "exec_nodes ts
     [FieldNode ''Operation'', TextNode ''['', FieldNode ''Duration'', TextNode '']: '',
      FieldNode ''Query'']
     \<lparr>Timestamp = now, Query = q, Operation = op, Duration = d, Error = e\<rparr>
   = Inr (op @ ''['' @ Duration_String d @ '']: '' @ q)"
  by (simp add: field_value_def)

lemma exec_default_error:
  "exec_nodes ts
     [FieldNode ''Operation'', TextNode ''['', FieldNode ''Duration'', TextNode '']: '',
      FieldNode ''Query'', TextNode '': '', FieldNode ''Error'']
     \<lparr>Timestamp = now, Query = q, Operation = op, Duration = d, Error = Some e\<rparr>
   = Inr (op @ ''['' @ Duration_String d @ '']: '' @ q @ '': '' @ error_text e)"
  by (simp add: field_value_def)

lemma render_scenario_message:
  "render scenario_engine (messageTemplate (scenario_hook on v))
     \<lparr>Timestamp = now, Query = q, Operation = op, Duration = d, Error = e\<rparr>
   = Inr (op @ ''['' @ Duration_String d @ '']: '' @ q)"
  unfolding render_def Execute_scenario_engine scenario_hook_def
  by (simp add: exec_default_message del: exec_nodes.simps)

lemma classify_scenario_slow:
  "classify (with_default_templates scenario_options) None 2000000000 = (False, WarnLevel)"
  by (simp add: classify_def scenario_options_sel)

lemma AfterQuery_scenario_slow:
  assumes "kind = OtherQuery \<or> kind = SelectQuery"
  shows "AfterQuery scenario_engine (scenario_hook True True) (scenario_event None kind) 2000000000
     = Inr (Some (LogWarn ''SELECT[2s]: SELECT * FROM users''))"
proof -
  have op: "eventOperation (scenario_event None kind) = ''SELECT''"
    using assms eventOperation_scenario by auto
  have g: "passes_gates (scenario_hook True True) (scenario_event None kind)"
    by (simp add: passes_gates_def scenario_hook_sel)
  have d: "dispatch (Some (FieldLogger 0)) WarnLevel m = Inr (Some (LogWarn m))" for m
    by (simp add: dispatch_def logger_call_def level_defs)
  have nz: "WarnLevel \<noteq> 0"
    by (simp add: WarnLevel_def)
  show ?thesis
    unfolding AfterQuery_def Let_def scenario_hook_sel scenario_event_sel time_Sub_from_0
      classify_scenario_slow op render_scenario_message
    using g by (simp add: classify_scenario_slow render_scenario_message d scenario_options_sel
        Duration_String_2s nz)
qed

section \<open>The early returns of \<open>AfterQuery\<close>\<close>

text \<open>
  C3. When the hook is not enabled, \<open>AfterQuery\<close> returns without a call on the logger and
  without a panic, for every event, configuration, engine and clock reading.
\<close>

theorem AfterQuery_disabled:
  "\<not> enabled h \<Longrightarrow> AfterQuery eng h event now = Inr None"
  by (simp add: AfterQuery_def passes_gates_def)

theorem AfterQuery_disabled_witness:
  "\<not> enabled (scenario_hook False True)
   \<and> AfterQuery scenario_engine (scenario_hook False True) (scenario_event None OtherQuery)
         2000000000
       = Inr None"
  using AfterQuery_disabled [of "scenario_hook False True" scenario_engine
      "scenario_event None OtherQuery" 2000000000]
  by (simp add: scenario_hook_sel)

text \<open>
  C1. With the hook enabled and not verbose, an event whose outcome is \<open>nil\<close>,
  \<open>sql.ErrNoRows\<close> or \<open>sql.ErrTxDone\<close> makes \<open>AfterQuery\<close> return without logging,
  whatever the configuration and the duration: also when the query is slow. The witness is
  the scenario with a threshold of one second and a query of two seconds.
\<close>

theorem AfterQuery_nonverbose_silent:
  "enabled h \<Longrightarrow> \<not> verbose h \<Longrightarrow>
   Err event = None \<or> Err event = Some ErrNoRows \<or> Err event = Some ErrTxDone \<Longrightarrow>
   AfterQuery eng h event now = Inr None"
  by (simp add: AfterQuery_def passes_gates_def)

theorem AfterQuery_nonverbose_silent_witness:
  "enabled (scenario_hook True False) \<and> \<not> verbose (scenario_hook True False)
   \<and> Err (scenario_event None OtherQuery) = None
   \<and> 0 < LogSlow (with_default_templates scenario_options)
   \<and> LogSlow (with_default_templates scenario_options)
        \<le> time_Sub 2000000000 (StartTime (scenario_event None OtherQuery))
   \<and> AfterQuery scenario_engine (scenario_hook True False) (scenario_event None OtherQuery)
         2000000000
       = Inr None"
  using AfterQuery_nonverbose_silent [of "scenario_hook True False"
      "scenario_event None OtherQuery" scenario_engine 2000000000]
  by (simp add: scenario_hook_sel scenario_event_sel scenario_options_sel time_Sub_from_0)

text \<open>
  C5. An event that passes the two gates, on a hook whose options are set, and whose
  resolved level is 0 makes \<open>AfterQuery\<close> return without logging and without a panic.
\<close>

theorem AfterQuery_unset_level_silent:
  "passes_gates h event \<Longrightarrow> opts h = Some o' \<Longrightarrow>
   snd (classify o' (Err event) (time_Sub now (StartTime event))) = 0 \<Longrightarrow>
   AfterQuery eng h event now = Inr None"
  by (cases "classify o' (Err event) (time_Sub now (StartTime event))")
    (simp add: AfterQuery_def Let_def)

theorem AfterQuery_unset_level_silent_witness:
  "passes_gates (scenario_hook True True\<lparr>opts := Some (scenario_options\<lparr>QueryLevel := 0\<rparr>)\<rparr>)
     (scenario_event None OtherQuery)
   \<and> snd (classify (scenario_options\<lparr>QueryLevel := 0\<rparr>) (Err (scenario_event None OtherQuery))
            (time_Sub 5 (StartTime (scenario_event None OtherQuery)))) = 0
   \<and> AfterQuery scenario_engine
         (scenario_hook True True\<lparr>opts := Some (scenario_options\<lparr>QueryLevel := 0\<rparr>)\<rparr>)
         (scenario_event None OtherQuery) 5 = Inr None"
proof -
  let ?h = "scenario_hook True True\<lparr>opts := Some (scenario_options\<lparr>QueryLevel := 0\<rparr>)\<rparr>"
  let ?e = "scenario_event None OtherQuery"
  have g: "passes_gates ?h ?e"
    by (simp add: passes_gates_def scenario_hook_def)
  have o: "opts ?h = Some (scenario_options\<lparr>QueryLevel := 0\<rparr>)"
    by simp
  have l: "snd (classify (scenario_options\<lparr>QueryLevel := 0\<rparr>) (Err ?e)
                  (time_Sub 5 (StartTime ?e))) = 0"
    by (simp add: classify_def scenario_event_def scenario_options_def time_Sub_def
        maxDuration_def minDuration_def)
  show ?thesis
    using g l AfterQuery_unset_level_silent [OF g o l, of scenario_engine] by simp
qed

section \<open>Classification\<close>

text \<open>
  C2. For an event that passes the gates, on a hook whose options are set: an outcome of
  \<open>nil\<close> or \<open>sql.ErrNoRows\<close> is not an error, and its level is \<open>SlowLevel\<close> exactly when
  \<open>LogSlow > 0\<close> and the duration is at least \<open>LogSlow\<close>, \<open>QueryLevel\<close> otherwise; every
  other outcome, \<open>sql.ErrTxDone\<close> among them, is an error at \<open>ErrorLevel\<close>. The last
  conjunct is what the logger sees of it: a call that \<open>AfterQuery\<close> makes is at that
  level, with the text of the message template for a non-error and of the error template
  for an error.
\<close>

theorem AfterQuery_classification:
  assumes "passes_gates h event" and "opts h = Some o'"
  shows
   "(Err event = None \<or> Err event = Some ErrNoRows \<longrightarrow>
       classify o' (Err event) (time_Sub now (StartTime event)) =
         (False,
          if LogSlow o' > 0 \<and> time_Sub now (StartTime event) \<ge> LogSlow o'
          then SlowLevel o' else QueryLevel o'))
    \<and> (Err event \<noteq> None \<and> Err event \<noteq> Some ErrNoRows \<longrightarrow>
       classify o' (Err event) (time_Sub now (StartTime event)) = (True, ErrorLevel o'))
    \<and> (Err event = Some ErrTxDone \<longrightarrow>
       classify o' (Err event) (time_Sub now (StartTime event)) = (True, ErrorLevel o'))
    \<and> (\<forall>c. AfterQuery eng h event now = Inr (Some c) \<longrightarrow>
          (if Err event = None \<or> Err event = Some ErrNoRows
           then level_of_call c =
                  (if LogSlow o' > 0 \<and> time_Sub now (StartTime event) \<ge> LogSlow o'
                   then SlowLevel o' else QueryLevel o')
                \<and> render eng (messageTemplate h)
                      \<lparr>Timestamp = now, Query = ev_Query event,
                       Operation = eventOperation event,
                       Duration = time_Sub now (StartTime event), Error = Err event\<rparr>
                    = Inr (call_text c)
           else level_of_call c = ErrorLevel o'
                \<and> render eng (errorTemplate h)
                      \<lparr>Timestamp = now, Query = ev_Query event,
                       Operation = eventOperation event,
                       Duration = time_Sub now (StartTime event), Error = Err event\<rparr>
                    = Inr (call_text c)))"
  (is "?success \<and> ?failure \<and> ?txdone \<and> (\<forall>c. ?run c \<longrightarrow> ?seen c)")
proof -
  have a: ?success
    by (simp add: classify_def)
  have b: ?failure
    by (simp add: classify_def)
  have c: ?txdone
    by (simp add: classify_def)
  have d: "?seen c" if run: "?run c" for c
  proof -
    from AfterQuery_Some [OF run] assms(2) obtain isError where
      cl: "classify o' (Err event) (time_Sub now (StartTime event)) = (isError, level_of_call c)"
      and r: "render eng (if isError then errorTemplate h else messageTemplate h)
                 \<lparr>Timestamp = now, Query = ev_Query event, Operation = eventOperation event,
                  Duration = time_Sub now (StartTime event), Error = Err event\<rparr>
               = Inr (call_text c)"
      by auto
    show ?thesis
    proof (cases "Err event = None \<or> Err event = Some ErrNoRows")
      case True
      with cl a have "isError = False"
        and "level_of_call c =
               (if LogSlow o' > 0 \<and> time_Sub now (StartTime event) \<ge> LogSlow o'
                then SlowLevel o' else QueryLevel o')"
        by auto
      with r True show ?thesis by auto
    next
      case False
      with cl b have "isError = True" and "level_of_call c = ErrorLevel o'"
        by auto
      with r False show ?thesis by auto
    qed
  qed
  from a b c d show ?thesis by blast
qed

theorem AfterQuery_classification_witness:
  "passes_gates (scenario_hook True True) (scenario_event None OtherQuery)
   \<and> opts (scenario_hook True True) = Some (with_default_templates scenario_options)
   \<and> classify (with_default_templates scenario_options) (Err (scenario_event None OtherQuery))
        (time_Sub 2000000000 (StartTime (scenario_event None OtherQuery)))
       = (False, SlowLevel (with_default_templates scenario_options))
   \<and> AfterQuery scenario_engine (scenario_hook True True) (scenario_event None OtherQuery)
        2000000000
       = Inr (Some (LogWarn ''SELECT[2s]: SELECT * FROM users''))
   \<and> level_of_call (LogWarn ''SELECT[2s]: SELECT * FROM users'')
       = SlowLevel (with_default_templates scenario_options)
   \<and> passes_gates (scenario_hook True True) (scenario_event (Some ErrTxDone) OtherQuery)
   \<and> classify (with_default_templates scenario_options)
        (Err (scenario_event (Some ErrTxDone) OtherQuery))
        (time_Sub 2000000000 (StartTime (scenario_event (Some ErrTxDone) OtherQuery)))
       = (True, ErrorLevel (with_default_templates scenario_options))"
proof -
  let ?h = "scenario_hook True True"
  have g: "passes_gates ?h (scenario_event err OtherQuery)" for err
    by (simp add: passes_gates_def scenario_hook_sel)
  have o: "opts ?h = Some (with_default_templates scenario_options)"
    by (simp add: scenario_hook_sel)
  have run: "AfterQuery scenario_engine ?h (scenario_event None OtherQuery) 2000000000
               = Inr (Some (LogWarn ''SELECT[2s]: SELECT * FROM users''))"
    by (simp add: AfterQuery_scenario_slow)
  show ?thesis
    using g o run
      AfterQuery_classification [OF g o, of None 2000000000 scenario_engine]
      AfterQuery_classification [OF g o, of "Some ErrTxDone" 2000000000 scenario_engine]
    by (simp add: scenario_event_sel scenario_options_sel time_Sub_from_0 level_of_call_def)
qed

section \<open>The level 0\<close>

lemma dispatch_PanicLevel: "dispatch (Some l) PanicLevel msg = Inr (Some (LogPanic msg))"
  by (simp add: dispatch_def logger_call_def level_defs)

text \<open>
  C10. \<open>logrus.PanicLevel\<close> is the level 0, the one \<open>AfterQuery\<close> takes as unset. So
  an event whose resolved level is \<open>PanicLevel\<close> (a \<open>QueryLevel\<close>, \<open>SlowLevel\<close> or
  \<open>ErrorLevel\<close> set to it) returns without logging, and no run of \<open>AfterQuery\<close> calls
  the \<open>Panic\<close> method of the logger: the \<open>PanicLevel\<close> case of the dispatch, which
  \<open>dispatch_PanicLevel\<close> shows would make that call, is never reached.
\<close>

theorem PanicLevel_never_dispatched:
  "PanicLevel = 0
   \<and> (passes_gates h event \<and> opts h = Some o'
        \<and> snd (classify o' (Err event) (time_Sub now (StartTime event))) = PanicLevel
      \<longrightarrow> AfterQuery eng h event now = Inr None)
   \<and> AfterQuery eng h event now \<noteq> Inr (Some (LogPanic msg))"
proof -
  have z: "PanicLevel = 0"
    by (simp add: PanicLevel_def)
  have silent: "AfterQuery eng h event now = Inr None"
    if "passes_gates h event" and "opts h = Some o'"
      and "snd (classify o' (Err event) (time_Sub now (StartTime event))) = PanicLevel"
    using that z
    by (cases "classify o' (Err event) (time_Sub now (StartTime event))")
      (simp add: AfterQuery_def Let_def)
  have never: "AfterQuery eng h event now \<noteq> Inr (Some (LogPanic msg))"
  proof
    assume "AfterQuery eng h event now = Inr (Some (LogPanic msg))"
    from AfterQuery_Some [OF this] have "level_of_call (LogPanic msg) \<noteq> 0"
      by blast
    then show False
      by (simp add: level_of_call_def z)
  qed
  from z silent never show ?thesis by blast
qed

theorem PanicLevel_never_dispatched_witness:
  "passes_gates (scenario_hook True True\<lparr>opts := Some (scenario_options\<lparr>ErrorLevel := PanicLevel\<rparr>)\<rparr>)
     (scenario_event (Some (OtherError ''boom'')) UpdateQuery)
   \<and> snd (classify (scenario_options\<lparr>ErrorLevel := PanicLevel\<rparr>)
            (Err (scenario_event (Some (OtherError ''boom'')) UpdateQuery))
            (time_Sub 7 (StartTime (scenario_event (Some (OtherError ''boom'')) UpdateQuery))))
       = PanicLevel
   \<and> AfterQuery scenario_engine
         (scenario_hook True True\<lparr>opts := Some (scenario_options\<lparr>ErrorLevel := PanicLevel\<rparr>)\<rparr>)
         (scenario_event (Some (OtherError ''boom'')) UpdateQuery) 7 = Inr None
   \<and> dispatch (Logger (scenario_options\<lparr>ErrorLevel := PanicLevel\<rparr>)) PanicLevel ''boom''
       = Inr (Some (LogPanic ''boom''))"
proof -
  let ?o = "scenario_options\<lparr>ErrorLevel := PanicLevel\<rparr>"
  let ?h = "scenario_hook True True\<lparr>opts := Some ?o\<rparr>"
  let ?e = "scenario_event (Some (OtherError ''boom'')) UpdateQuery"
  have g: "passes_gates ?h ?e"
    by (simp add: passes_gates_def scenario_hook_def)
  have o: "opts ?h = Some ?o"
    by simp
  have l: "snd (classify ?o (Err ?e) (time_Sub 7 (StartTime ?e))) = PanicLevel"
    by (simp add: classify_def scenario_event_def)
  have d: "dispatch (Logger ?o) PanicLevel ''boom'' = Inr (Some (LogPanic ''boom''))"
    by (simp add: scenario_options_def dispatch_PanicLevel)
  from PanicLevel_never_dispatched [of ?h ?e ?o 7 scenario_engine "''boom''"] g o l
  have "AfterQuery scenario_engine ?h ?e 7 = Inr None"
    by blast
  with g l d show ?thesis
    by blast
qed

section \<open>The environment option\<close>

lemma FromEnv_single:
  "FromEnv environ [key] h =
     Inr (case environ key of
            None \<Rightarrow> h
          | Some env \<Rightarrow> h\<lparr>enabled := (env \<noteq> [] \<and> env \<noteq> ''0''), verbose := (env = ''2'')\<rparr>)"
  by (simp add: FromEnv_def split: option.splits)

text \<open>
  C4. \<open>FromEnv\<close> with one variable name: when the variable is absent the hook is
  unchanged; the values \<open>""\<close> and \<open>"0"\<close> disable the hook; the value \<open>"2"\<close> enables it
  and makes it verbose; every other value enables it and makes it not verbose. With no
  name at all the variable is \<open>BUNDEBUG\<close>.
\<close>

theorem FromEnv_values:
  "(environ key = None \<longrightarrow> FromEnv environ [key] h = Inr h)
   \<and> (environ key = Some env \<and> (env = [] \<or> env = ''0'') \<longrightarrow>
        FromEnv environ [key] h = Inr (h\<lparr>enabled := False, verbose := False\<rparr>))
   \<and> (environ key = Some ''2'' \<longrightarrow>
        FromEnv environ [key] h = Inr (h\<lparr>enabled := True, verbose := True\<rparr>))
   \<and> (environ key = Some env \<and> env \<noteq> [] \<and> env \<noteq> ''0'' \<and> env \<noteq> ''2'' \<longrightarrow>
        FromEnv environ [key] h = Inr (h\<lparr>enabled := True, verbose := False\<rparr>))
   \<and> FromEnv environ [] h = FromEnv environ [''BUNDEBUG''] h"
proof -
  have "FromEnv environ [] h = FromEnv environ [''BUNDEBUG''] h"
    by (simp add: FromEnv_def)
  then show ?thesis
    by (auto simp: FromEnv_single)
qed

theorem FromEnv_values_witness:
  "FromEnv Map.empty [''BUNDEBUG''] (scenario_hook True True) = Inr (scenario_hook True True)
   \<and> FromEnv [''BUNDEBUG'' \<mapsto> ''0''] [''BUNDEBUG''] (scenario_hook True True)
       = Inr (scenario_hook False False)
   \<and> FromEnv [''BUNDEBUG'' \<mapsto> ''''] [''BUNDEBUG''] (scenario_hook True True)
       = Inr (scenario_hook False False)
   \<and> FromEnv [''BUNDEBUG'' \<mapsto> ''2''] [''BUNDEBUG''] (scenario_hook False False)
       = Inr (scenario_hook True True)
   \<and> FromEnv [''BUNDEBUG'' \<mapsto> ''1''] [''BUNDEBUG''] (scenario_hook False True)
       = Inr (scenario_hook True False)
   \<and> FromEnv [''BUNDEBUG'' \<mapsto> ''2''] [] (scenario_hook False False)
       = Inr (scenario_hook True True)"
  using FromEnv_values [where environ = Map.empty and key = "''BUNDEBUG''"
      and h = "scenario_hook True True :: node list QueryHook"]
    FromEnv_values [where environ = "[''BUNDEBUG'' \<mapsto> ''0'']" and key = "''BUNDEBUG''"
      and env = "''0''" and h = "scenario_hook True True :: node list QueryHook"]
    FromEnv_values [where environ = "[''BUNDEBUG'' \<mapsto> '''']" and key = "''BUNDEBUG''"
      and env = "''''" and h = "scenario_hook True True :: node list QueryHook"]
    FromEnv_values [where environ = "[''BUNDEBUG'' \<mapsto> ''2'']" and key = "''BUNDEBUG''"
      and env = "''2''" and h = "scenario_hook False False :: node list QueryHook"]
    FromEnv_values [where environ = "[''BUNDEBUG'' \<mapsto> ''1'']" and key = "''BUNDEBUG''"
      and env = "''1''" and h = "scenario_hook False True :: node list QueryHook"]
  by (simp add: scenario_hook_def)

end
